theory Spec2Isabelle
  imports Complex_Main "HOL-Library.AList"
begin

section \<open>Python values used by main.py\<close>

text \<open>
  Message texts and stored strings are lists of characters; the model covers ASCII
  text. Python's \<^verbatim>\<open>int\<close> and the regular expression class \<^verbatim>\<open>\d\<close> also accept
  decimal digits outside ASCII, which are not represented here.
\<close>

definition is_digit :: "char \<Rightarrow> bool" where
  "is_digit c = ((48::nat) \<le> of_char c \<and> (of_char c :: nat) \<le> 57)"

definition digit_val :: "char \<Rightarrow> nat" where
  "digit_val c = (of_char c :: nat) - 48"

definition is_space :: "char \<Rightarrow> bool" where
  "is_space c = ((of_char c :: nat) \<in> {9, 10, 11, 12, 13, 32})"

text \<open>
  \<^verbatim>\<open>int(s)\<close> on a string: surrounding whitespace (the six characters of C's
  \<^verbatim>\<open>isspace\<close>) is dropped, one sign is allowed, and
  the rest is decimal digits in which single underscores may stand between two digits.
  Anything else raises ValueError (\<open>None\<close>). The flag of \<open>int_digits\<close> says that
  the previous character was a digit.
\<close>

fun int_digits :: "bool \<Rightarrow> string \<Rightarrow> nat \<Rightarrow> nat option" where
  "int_digits after_digit [] acc = (if after_digit then Some acc else None)"
| "int_digits after_digit (c # cs) acc =
     (if is_digit c then int_digits True cs (10 * acc + digit_val c)
      else if c = CHR ''_'' \<and> after_digit then int_digits False cs acc
      else None)"

definition strip :: "string \<Rightarrow> string" where
  "strip s = rev (dropWhile is_space (rev (dropWhile is_space s)))"

definition py_int :: "string \<Rightarrow> int option" where
  "py_int s =
     (case strip s of
        [] \<Rightarrow> None
      | c # cs \<Rightarrow>
          if c = CHR ''-'' then map_option (\<lambda>n. - int n) (int_digits False cs 0)
          else if c = CHR ''+'' then map_option int (int_digits False cs 0)
          else map_option int (int_digits False (c # cs) 0))"

text \<open>\<^verbatim>\<open>s.split(':')\<close>: one more part than there are colons.\<close>

fun split_colon :: "string \<Rightarrow> string list" where
  "split_colon [] = [[]]"
| "split_colon (c # cs) =
     (if c = CHR '':'' then [] # split_colon cs
      else (case split_colon cs of
              [] \<Rightarrow> [[c]]
            | p # ps \<Rightarrow> (c # p) # ps))"

text \<open>
  \<^verbatim>\<open>hour, minute = map(int, time_str.split(':'))\<close>: unpacking anything but two parts
  raises ValueError, and so does each failing \<^verbatim>\<open>int\<close>; \<open>None\<close> is that ValueError.
\<close>

definition parse_time :: "string \<Rightarrow> (int \<times> int) option" where
  "parse_time time_str =
     (case split_colon time_str of
        [a, b] \<Rightarrow>
          (case py_int a of
             None \<Rightarrow> None
           | Some h \<Rightarrow> (case py_int b of None \<Rightarrow> None | Some m \<Rightarrow> Some (h, m)))
      | _ \<Rightarrow> None)"

text \<open>
  The filter of the time handler in \<^verbatim>\<open>main\<close>: \<^verbatim>\<open>filters.Regex(r'^\d{1,2}:\d{2}$')\<close>,
  applied with \<^verbatim>\<open>re.search\<close>. Without the MULTILINE flag \<^verbatim>\<open>$\<close> matches at the end
  of the text or before one final newline.
\<close>

definition time_regex :: "string \<Rightarrow> bool" where
  "time_regex text =
     (let t = (if text \<noteq> [] \<and> last text = CHR 0x0A then butlast text else text) in
      case t of
        [h, c, m1, m2] \<Rightarrow> is_digit h \<and> c = CHR '':'' \<and> is_digit m1 \<and> is_digit m2
      | [h1, h2, c, m1, m2] \<Rightarrow>
          is_digit h1 \<and> is_digit h2 \<and> c = CHR '':'' \<and> is_digit m1 \<and> is_digit m2
      | _ \<Rightarrow> False)"

text \<open>\<^verbatim>\<open>str(n)\<close> for an integer, as the f-string \<^verbatim>\<open>f"user_{user_id}"\<close> renders it.\<close>

definition digit_char :: "nat \<Rightarrow> char" where
  "digit_char d = char_of (48 + d)"

fun str_nat :: "nat \<Rightarrow> string" where
  "str_nat n = (if n < 10 then [digit_char n] else str_nat (n div 10) @ [digit_char (n mod 10)])"

declare str_nat.simps [simp del]

definition str_int :: "int \<Rightarrow> string" where
  "str_int i = (if i < 0 then CHR ''-'' # str_nat (nat (- i)) else str_nat (nat i))"

definition job_id :: "int \<Rightarrow> string" where
  "job_id user_id = ''user_'' @ str_int user_id"

section \<open>The users table\<close>

text \<open>
  One row of the table \<^verbatim>\<open>users\<close>; every column but the key may be NULL. The table
  is a list of rows with distinct keys (\<^verbatim>\<open>user_id INTEGER PRIMARY KEY\<close>); the order
  of the list is the order in which a SELECT yields the rows.
  Errors of the database itself are outside the model.
\<close>

text \<open>
  A REAL column holds any double but NaN: SQLite stores a NaN that is bound to a
  statement as NULL. A Python float is such a number or NaN. The program only tests
  numbers for zero and passes them on, so the finite ones are modelled as reals.
\<close>

datatype number = Finite real | Infinity | Neg_infinity

datatype pyfloat = Num number | NaN

definition bind_real :: "pyfloat option \<Rightarrow> number option" where
  "bind_real v = (case v of None \<Rightarrow> None | Some NaN \<Rightarrow> None | Some (Num x) \<Rightarrow> Some x)"

record profile =
  latitude :: "number option"
  longitude :: "number option"
  notification_time :: "string option"
  timezone :: "string option"

type_synonym users = "(int \<times> profile) list"

text \<open>
  \<^verbatim>\<open>get_user_settings\<close>: the row as a dict, or the empty dict (\<open>None\<close>) when there is
  none. \<open>dict_get\<close> is \<^verbatim>\<open>settings.get(key)\<close>, which is None on the empty dict.
\<close>

definition get_user_settings :: "users \<Rightarrow> int \<Rightarrow> profile option" where
  "get_user_settings db user_id = map_of db user_id"

definition dict_get :: "(profile \<Rightarrow> 'a option) \<Rightarrow> profile option \<Rightarrow> 'a option" where
  "dict_get field settings = (case settings of None \<Rightarrow> None | Some row \<Rightarrow> field row)"

text \<open>
  \<^verbatim>\<open>save_user_settings\<close>: reads the current row, takes each argument that is not None
  and the stored value otherwise, and writes the row back with INSERT OR REPLACE; the
  two floats are bound to REAL columns.
\<close>

definition save_user_settings ::
  "users \<Rightarrow> int \<Rightarrow> pyfloat option \<Rightarrow> pyfloat option \<Rightarrow> string option \<Rightarrow> string option \<Rightarrow>
   users"
where
  "save_user_settings db user_id lat lon time tz =
     (let current = get_user_settings db user_id;
          new_lat = (if lat \<noteq> None then lat else map_option Num (dict_get latitude current));
          new_lon = (if lon \<noteq> None then lon
                     else map_option Num (dict_get longitude current));
          new_time = (if time \<noteq> None then time else dict_get notification_time current);
          new_tz = (if tz \<noteq> None then tz else dict_get timezone current)
      in AList.update user_id
           \<lparr>latitude = bind_real new_lat, longitude = bind_real new_lon,
            notification_time = new_time, timezone = new_tz\<rparr> db)"

text \<open>
  Python truth values: None, the float 0.0 and the empty string are false. The floats
  tested are values read from the table.
\<close>

definition truthy_float :: "number option \<Rightarrow> bool" where
  "truthy_float v =
     (case v of None \<Rightarrow> False | Some (Finite x) \<Rightarrow> x \<noteq> 0 | Some _ \<Rightarrow> True)"

definition truthy_str :: "string option \<Rightarrow> bool" where
  "truthy_str v = (case v of None \<Rightarrow> False | Some x \<Rightarrow> x \<noteq> [])"

section \<open>The scheduler\<close>

text \<open>
  A job of the scheduler: its cron trigger and the user id in \<^verbatim>\<open>args=[bot, user_id]\<close>
  of the callback \<^verbatim>\<open>send_daily_weather\<close>. The job store is keyed by the job id.
\<close>

record trigger =
  hour :: int
  minute :: int
  tz :: string

record job =
  job_trigger :: trigger
  job_user :: int

type_synonym jobs = "(string \<times> job) list"

datatype exn = ValueError | UnknownTimeZoneError

text \<open>
  Modelled from the spec: the constructor \<^verbatim>\<open>CronTrigger(hour=, minute=, timezone=)\<close>
  belongs to the scheduling library and is not in the source. Section 4.2: a
  malformed timezone or an out-of-range hour or minute is rejected when the job is
  scheduled, never coerced. The library resolves the timezone name first (an unknown
  name raises its lookup error) and then checks the fields (ValueError). Which names
  are known is the timezone database, a parameter of the model.
\<close>

definition CronTrigger :: "(string \<Rightarrow> bool) \<Rightarrow> int \<Rightarrow> int \<Rightarrow> string \<Rightarrow> exn + trigger" where
  "CronTrigger known h m z =
     (if \<not> known z then Inl UnknownTimeZoneError
      else if 0 \<le> h \<and> h \<le> 23 \<and> 0 \<le> m \<and> m \<le> 59
      then Inr \<lparr>hour = h, minute = m, tz = z\<rparr>
      else Inl ValueError)"

text \<open>
  \<^verbatim>\<open>scheduler.add_job(send_daily_weather, trigger=t, args=[bot, user_id],
  id=f"user_{user_id}", replace_existing=True)\<close>: the job under that id is replaced,
  or the job is added when the id is new.
\<close>

definition add_job :: "jobs \<Rightarrow> trigger \<Rightarrow> int \<Rightarrow> jobs" where
  "add_job js t user_id =
     AList.update (job_id user_id) \<lparr>job_trigger = t, job_user = user_id\<rparr> js"

section \<open>The state of the process and the outside world\<close>

text \<open>
  The replies of the handlers and the log lines are fixed texts of the source (in
  Ukrainian); they are named here rather than spelled out.
\<close>

datatype reply =
    Location_first
  | Notification_set string
  | Bad_format
  | Handler_error
  | Send_location_first
  | Location_saved "string option"
  | Enter_time
  | Greeting

datatype log_line =
    Timezone_failed
  | Weather_failed
  | Description_failed
  | Forecast_failed
  | Handler_failed

type_synonym json = "(string \<times> string) list"

text \<open>
  What the process does to the outside, in order: requests to the collaborators,
  messages to the user (with whether the call succeeded), file operations and log
  lines.
\<close>

datatype event =
    Timezone_request pyfloat pyfloat
  | Weather_request number number
  | Narration_request json
  | Speech_request string
  | Send_message int string bool
  | Send_audio int string bool
  | Remove_file string
  | Reply_text int reply
  | Log_error log_line

record state =
  db :: users
  jobs :: jobs
  files :: "string set"
  trace :: "event list"

datatype tz_answer = Lookup_failed | No_zone_name | Zone_null | Zone_name string

datatype speech_answer = Speech_saved | Speech_failed | Speech_failed_file_left

text \<open>
  The collaborators. Each answer may depend on when the call is made: the first
  argument is the number of events so far. \<open>None\<close> is a call that raised.
\<close>

record world =
  tz_known :: "string \<Rightarrow> bool"
  timezonedb :: "nat \<Rightarrow> pyfloat \<Rightarrow> pyfloat \<Rightarrow> tz_answer"
  weatherapi :: "nat \<Rightarrow> number \<Rightarrow> number \<Rightarrow> json option"
  gemini :: "nat \<Rightarrow> json \<Rightarrow> string option"
  gtts :: "nat \<Rightarrow> string \<Rightarrow> speech_answer"
  message_sent :: "nat \<Rightarrow> bool"
  audio_sent :: "nat \<Rightarrow> bool"

definition emit :: "event \<Rightarrow> state \<Rightarrow> state" where
  "emit e s = s\<lparr>trace := trace s @ [e]\<rparr>"

definition now :: "state \<Rightarrow> nat" where
  "now s = length (trace s)"

section \<open>Collaborators\<close>

text \<open>
  \<^verbatim>\<open>get_timezone\<close>: \<^verbatim>\<open>data.get('zoneName', 'Europe/Kiev')\<close>, that is the zone name of
  the answer, None when the answer holds a JSON null there, the default name when the
  answer has no such key, and the default name with a log line when the request raised.
\<close>

definition get_timezone ::
  "world \<Rightarrow> state \<Rightarrow> pyfloat \<Rightarrow> pyfloat \<Rightarrow> state \<times> string option"
where
  "get_timezone w s lat lon =
     (let s1 = emit (Timezone_request lat lon) s in
      case timezonedb w (now s) lat lon of
        Zone_name z \<Rightarrow> (s1, Some z)
      | Zone_null \<Rightarrow> (s1, None)
      | No_zone_name \<Rightarrow> (s1, Some ''Europe/Kiev'')
      | Lookup_failed \<Rightarrow> (emit (Log_error Timezone_failed) s1, Some ''Europe/Kiev''))"

text \<open>\<^verbatim>\<open>get_weather\<close>: the answer, or None with a log line when the request raised.\<close>

definition get_weather ::
  "world \<Rightarrow> state \<Rightarrow> number \<Rightarrow> number \<Rightarrow> state \<times> json option"
where
  "get_weather w s lat lon =
     (let s1 = emit (Weather_request lat lon) s in
      case weatherapi w (now s) lat lon of
        Some data \<Rightarrow> (s1, Some data)
      | None \<Rightarrow> (emit (Log_error Weather_failed) s1, None))"

text \<open>
  \<^verbatim>\<open>generate_weather_description\<close>: the generated text, or the fixed text with a log
  line when the generation raised. The fixed text is Ukrainian in the source and is
  transliterated here.
\<close>

definition fallback_description :: string where
  "fallback_description = ''Prohnoz pohody na sohodni: harna pohoda!''"

definition generate_weather_description :: "world \<Rightarrow> state \<Rightarrow> json \<Rightarrow> state \<times> string" where
  "generate_weather_description w s weather_data =
     (let s1 = emit (Narration_request weather_data) s in
      case gemini w (now s) weather_data of
        Some text \<Rightarrow> (s1, text)
      | None \<Rightarrow> (emit (Log_error Description_failed) s1, fallback_description))"

section \<open>The delivery pipeline\<close>

definition mp3 :: string where
  "mp3 = ''weather.mp3''"

text \<open>The handler \<^verbatim>\<open>except Exception\<close> of \<^verbatim>\<open>send_daily_weather\<close>: one log line.\<close>

definition forecast_failed :: "state \<Rightarrow> state" where
  "forecast_failed s = emit (Log_error Forecast_failed) s"

text \<open>
  \<^verbatim>\<open>send_daily_weather\<close>. The whole body stands in one \<^verbatim>\<open>try\<close>; a raising call
  leaves what was done before it and ends in \<open>forecast_failed\<close>. The removal of the
  file is the last statement of the body.
\<close>

definition send_daily_weather :: "world \<Rightarrow> state \<Rightarrow> int \<Rightarrow> state" where
  "send_daily_weather w s user_id =
     (let settings = get_user_settings (db s) user_id in
      if \<not> truthy_float (dict_get latitude settings) \<or>
         \<not> truthy_float (dict_get longitude settings)
      then s
      else
        case get_weather w s (the (dict_get latitude settings))
               (the (dict_get longitude settings)) of
          (s1, weather_data) \<Rightarrow>
            if weather_data = None \<or> weather_data = Some [] then s1
            else
              case generate_weather_description w s1 (the weather_data) of
                (s2, description) \<Rightarrow>
                  let s3 = emit (Speech_request description) s2 in
                  case gtts w (now s2) description of
                    Speech_failed \<Rightarrow> forecast_failed s3
                  | Speech_failed_file_left \<Rightarrow>
                      forecast_failed (s3\<lparr>files := insert mp3 (files s3)\<rparr>)
                  | Speech_saved \<Rightarrow>
                      let s4 = s3\<lparr>files := insert mp3 (files s3)\<rparr> in
                      if \<not> message_sent w (now s4)
                      then forecast_failed (emit (Send_message user_id description False) s4)
                      else
                        let s5 = emit (Send_message user_id description True) s4 in
                        if \<not> audio_sent w (now s5)
                        then forecast_failed (emit (Send_audio user_id mp3 False) s5)
                        else
                          let s6 = emit (Send_audio user_id mp3 True) s5;
                              s7 = emit (Remove_file mp3) s6
                          in s7\<lparr>files := files s7 - {mp3}\<rparr>)"

section \<open>Reconciliation at start\<close>

text \<open>
  The loop of \<^verbatim>\<open>restore_jobs\<close> over the selected rows. A raising \<^verbatim>\<open>int\<close> or
  \<^verbatim>\<open>CronTrigger\<close> is not caught: it ends the loop and the start of the process
  (\<open>Inl\<close>). Nothing is logged.
\<close>

fun restore_rows ::
  "world \<Rightarrow> (int \<times> string option \<times> string option) list \<Rightarrow> jobs \<Rightarrow> exn + jobs"
where
  "restore_rows w [] js = Inr js"
| "restore_rows w ((user_id, time_str, zone) # rows) js =
     (if truthy_str time_str \<and> truthy_str zone then
        (case parse_time (the time_str) of
           None \<Rightarrow> Inl ValueError
         | Some (h, m) \<Rightarrow>
             (case CronTrigger (tz_known w) h m (the zone) of
                Inl e \<Rightarrow> Inl e
              | Inr t \<Rightarrow> restore_rows w rows (add_job js t user_id)))
      else restore_rows w rows js)"

text \<open>
  \<^verbatim>\<open>SELECT user_id, notification_time, timezone FROM users WHERE notification_time
  IS NOT NULL\<close>.
\<close>

definition select_scheduled :: "users \<Rightarrow> (int \<times> string option \<times> string option) list" where
  "select_scheduled rows =
     map (\<lambda>(user_id, row). (user_id, notification_time row, timezone row))
       (filter (\<lambda>(user_id, row). notification_time row \<noteq> None) rows)"

definition restore_jobs :: "world \<Rightarrow> state \<Rightarrow> exn + state" where
  "restore_jobs w s =
     (case restore_rows w (select_scheduled (db s)) (jobs s) of
        Inl e \<Rightarrow> Inl e
      | Inr js \<Rightarrow> Inr (s\<lparr>jobs := js\<rparr>))"

text \<open>
  A new process: the module creates an empty \<^verbatim>\<open>AsyncIOScheduler()\<close>, whose job store
  is in memory; the database file and the working directory are kept. Then
  \<^verbatim>\<open>setup_scheduler\<close> starts the scheduler and restores the jobs.
\<close>

definition process_start :: "state \<Rightarrow> state" where
  "process_start s = s\<lparr>jobs := []\<rparr>"

definition setup_scheduler :: "world \<Rightarrow> state \<Rightarrow> exn + state" where
  "setup_scheduler w s = restore_jobs w s"

section \<open>Handlers\<close>

text \<open>
  A reply is an event of the trace; \<^verbatim>\<open>reply_text\<close> itself is taken to succeed.
\<close>

definition start :: "world \<Rightarrow> state \<Rightarrow> int \<Rightarrow> state" where
  "start w s user_id = emit (Reply_text user_id Greeting) s"

definition handle_instant_forecast :: "world \<Rightarrow> state \<Rightarrow> int \<Rightarrow> state" where
  "handle_instant_forecast w s user_id =
     (let settings = get_user_settings (db s) user_id in
      if truthy_float (dict_get latitude settings) \<and>
         truthy_float (dict_get longitude settings)
      then
        case get_weather w s (the (dict_get latitude settings))
               (the (dict_get longitude settings)) of
          (s1, weather_text) \<Rightarrow> send_daily_weather w s1 user_id
      else emit (Reply_text user_id Send_location_first) s)"

definition handle_location ::
  "world \<Rightarrow> state \<Rightarrow> int \<Rightarrow> pyfloat \<Rightarrow> pyfloat \<Rightarrow> state"
where
  "handle_location w s user_id lat lon =
     (case get_timezone w s lat lon of
        (s1, zone) \<Rightarrow>
          emit (Reply_text user_id (Location_saved zone))
            (s1\<lparr>db := save_user_settings (db s1) user_id (Some lat) (Some lon) None zone\<rparr>))"

definition handle_time_setup :: "world \<Rightarrow> state \<Rightarrow> int \<Rightarrow> state" where
  "handle_time_setup w s user_id = emit (Reply_text user_id Enter_time) s"

text \<open>
  \<^verbatim>\<open>handle_time_input\<close>. ValueError (from the parsing or from the trigger) gives
  the reply about the format; any other exception gives a log line and the general
  reply. The job is added before the time is saved.
\<close>

definition handle_time_input :: "world \<Rightarrow> state \<Rightarrow> int \<Rightarrow> string \<Rightarrow> state" where
  "handle_time_input w s user_id time_str =
     (case parse_time time_str of
        None \<Rightarrow> emit (Reply_text user_id Bad_format) s
      | Some (h, m) \<Rightarrow>
          let settings = get_user_settings (db s) user_id in
          if \<not> truthy_str (dict_get timezone settings)
          then emit (Reply_text user_id Location_first) s
          else
            case CronTrigger (tz_known w) h m (the (dict_get timezone settings)) of
              Inl ValueError \<Rightarrow> emit (Reply_text user_id Bad_format) s
            | Inl UnknownTimeZoneError \<Rightarrow>
                emit (Reply_text user_id Handler_error) (emit (Log_error Handler_failed) s)
            | Inr t \<Rightarrow>
                let s1 = s\<lparr>jobs := add_job (jobs s) t user_id\<rparr>;
                    s2 = s1\<lparr>db := save_user_settings (db s1) user_id None None
                                    (Some time_str) None\<rparr>
                in emit (Reply_text user_id (Notification_set time_str)) s2)"

text \<open>
  A firing: the scheduler calls the callback of the job with its arguments. The
  trigger is a daily cron trigger, so the job stays in the store; the callback is the
  only code of the program that runs.
\<close>

definition fire :: "world \<Rightarrow> state \<Rightarrow> string \<Rightarrow> state" where
  "fire w s jid =
     (case map_of (jobs s) jid of
        None \<Rightarrow> s
      | Some j \<Rightarrow> send_daily_weather w s (job_user j))"

section \<open>The running process\<close>

text \<open>
  What reaches the process: the messages of a user, routed by the handlers that
  \<^verbatim>\<open>main\<close> registers (the two menu buttons are fixed texts, a text of the time form
  goes to \<^verbatim>\<open>handle_time_input\<close>, any other text has no handler), and the firings of
  the scheduler.
\<close>

datatype update =
    Start_command int
  | Location_message int pyfloat pyfloat
  | Time_setup_button int
  | Forecast_button int
  | Text_message int string
  | Firing string

definition dispatch :: "world \<Rightarrow> state \<Rightarrow> update \<Rightarrow> state" where
  "dispatch w s upd =
     (case upd of
        Start_command user_id \<Rightarrow> start w s user_id
      | Location_message user_id lat lon \<Rightarrow> handle_location w s user_id lat lon
      | Time_setup_button user_id \<Rightarrow> handle_time_setup w s user_id
      | Forecast_button user_id \<Rightarrow> handle_instant_forecast w s user_id
      | Text_message user_id text \<Rightarrow>
          if time_regex text then handle_time_input w s user_id text else s
      | Firing jid \<Rightarrow> fire w s jid)"

definition run :: "world \<Rightarrow> state \<Rightarrow> update list \<Rightarrow> state" where
  "run w s upds = foldl (dispatch w) s upds"

section \<open>Properties of the store and of the job table\<close>

text \<open>
  No column of the row \<open>old\<close> that holds a value is NULL in the row \<open>new\<close>; the same
  for the notification time and the timezone alone.
\<close>

definition never_cleared :: "profile option \<Rightarrow> profile option \<Rightarrow> bool" where
  "never_cleared old new =
     ((dict_get latitude old \<noteq> None \<longrightarrow> dict_get latitude new \<noteq> None) \<and>
      (dict_get longitude old \<noteq> None \<longrightarrow> dict_get longitude new \<noteq> None) \<and>
      (dict_get notification_time old \<noteq> None \<longrightarrow> dict_get notification_time new \<noteq> None) \<and>
      (dict_get timezone old \<noteq> None \<longrightarrow> dict_get timezone new \<noteq> None))"

definition time_and_zone_kept :: "profile option \<Rightarrow> profile option \<Rightarrow> bool" where
  "time_and_zone_kept old new =
     ((dict_get notification_time old \<noteq> None \<longrightarrow> dict_get notification_time new \<noteq> None) \<and>
      (dict_get timezone old \<noteq> None \<longrightarrow> dict_get timezone new \<noteq> None))"

text \<open>An update that does not carry a NaN coordinate.\<close>

definition no_nan :: "update \<Rightarrow> bool" where
  "no_nan upd =
     (case upd of Location_message user_id lat lon \<Rightarrow> lat \<noteq> NaN \<and> lon \<noteq> NaN | _ \<Rightarrow> True)"

text \<open>The jobs whose callback is bound to a user.\<close>

definition jobs_of :: "int \<Rightarrow> jobs \<Rightarrow> jobs" where
  "jobs_of user_id js = filter (\<lambda>(jid, j). job_user j = user_id) js"

text \<open>
  The job table of a running scheduler: ids are unique, and every job stands under
  the id made from the user it is bound to.
\<close>

definition job_table_ok :: "jobs \<Rightarrow> bool" where
  "job_table_ok js =
     (distinct (map fst js) \<and> list_all (\<lambda>(jid, j). jid = job_id (job_user j)) js)"

text \<open>
  The job that the stored row of a user asks for: none unless both the notification
  time and the timezone are set and not empty; otherwise the stored hour and minute in
  the stored timezone, bound to the user.
\<close>

definition planned_job :: "int \<Rightarrow> profile \<Rightarrow> job option" where
  "planned_job user_id row =
     (if truthy_str (notification_time row) \<and> truthy_str (timezone row) then
        (case parse_time (the (notification_time row)) of
           None \<Rightarrow> None
         | Some (h, m) \<Rightarrow>
             Some \<lparr>job_trigger = \<lparr>hour = h, minute = m, tz = the (timezone row)\<rparr>,
                   job_user = user_id\<rparr>)
      else None)"

definition planned :: "users \<Rightarrow> int \<Rightarrow> job option" where
  "planned rows user_id =
     (case get_user_settings rows user_id of None \<Rightarrow> None
      | Some row \<Rightarrow> planned_job user_id row)"

definition planned_jobs :: "users \<Rightarrow> jobs" where
  "planned_jobs rows =
     List.map_filter
       (\<lambda>(user_id, row). map_option (\<lambda>j. (job_id user_id, j)) (planned_job user_id row)) rows"







definition new_events :: "state \<Rightarrow> state \<Rightarrow> event list" where
  "new_events s s' = drop (length (trace s)) (trace s')"



section \<open>Example worlds and states\<close>

text \<open>
  A world in which every collaborator answers: two timezone names are known, the
  timezone service answers New York at the longitude -74 and Kyiv elsewhere, and every
  delivery succeeds.
\<close>

definition example_world :: world where
  "example_world =
     \<lparr>tz_known = (\<lambda>z. z = ''Europe/Kyiv'' \<or> z = ''America/New_York''),
      timezonedb = (\<lambda>n lat lon.
        Zone_name (if lon = Num (Finite (- 74)) then ''America/New_York''
                   else ''Europe/Kyiv'')),
      weatherapi = (\<lambda>n lat lon. Some [(''temp_c'', ''5'')]),
      gemini = (\<lambda>n weather_data. Some ''sunny''),
      gtts = (\<lambda>n description. Speech_saved),
      message_sent = (\<lambda>n. True),
      audio_sent = (\<lambda>n. True)\<rparr>"

text \<open>The same world with the weather service down, and with a failing delivery of the text.\<close>

definition weather_down_world :: world where
  "weather_down_world = example_world\<lparr>weatherapi := (\<lambda>n lat lon. None)\<rparr>"

definition send_fails_world :: world where
  "send_fails_world = example_world\<lparr>message_sent := (\<lambda>n. False)\<rparr>"

definition empty_state :: state where
  "empty_state = \<lparr>db = [], jobs = [], files = {}, trace = []\<rparr>"

text \<open>User 1 has sent the location (50.45, 30.52) and has no notification time.\<close>

definition located_state :: state where
  "located_state =
     \<lparr>db = [(1, \<lparr>latitude = Some (Finite 50.45), longitude = Some (Finite 30.52),
                  notification_time = None, timezone = Some ''Europe/Kyiv''\<rparr>)],
      jobs = [], files = {}, trace = []\<rparr>"

text \<open>User 1 has then set the time 08:00.\<close>

definition scheduled_state :: state where
  "scheduled_state =
     \<lparr>db = [(1, \<lparr>latitude = Some (Finite 50.45), longitude = Some (Finite 30.52),
                  notification_time = Some ''08:00'', timezone = Some ''Europe/Kyiv''\<rparr>)],
      jobs = [(''user_1'',
               \<lparr>job_trigger = \<lparr>hour = 8, minute = 0, tz = ''Europe/Kyiv''\<rparr>, job_user = 1\<rparr>)],
      files = {}, trace = []\<rparr>"

text \<open>User 1 has then sent a new location, in another timezone.\<close>

definition moved_state :: state where
  "moved_state =
     \<lparr>db = [(1, \<lparr>latitude = Some (Finite 40.71), longitude = Some (Finite (- 74)),
                  notification_time = Some ''08:00'', timezone = Some ''America/New_York''\<rparr>)],
      jobs = [(''user_1'',
               \<lparr>job_trigger = \<lparr>hour = 8, minute = 0, tz = ''Europe/Kyiv''\<rparr>, job_user = 1\<rparr>)],
      files = {}, trace = []\<rparr>"

text \<open>A table with one row that holds a notification time and no timezone.\<close>

definition inconsistent_state :: state where
  "inconsistent_state =
     \<lparr>db = [(2, \<lparr>latitude = None, longitude = None,
                  notification_time = Some ''08:00'', timezone = None\<rparr>)],
      jobs = [], files = {}, trace = []\<rparr>"

text \<open>Tables whose one row holds a timezone name that is unknown, or empty.\<close>

definition unknown_zone_state :: state where
  "unknown_zone_state =
     \<lparr>db = [(3, \<lparr>latitude = Some (Finite 50.45), longitude = Some (Finite 30.52),
                  notification_time = Some ''08:00'', timezone = Some ''Mars/Olympus''\<rparr>)],
      jobs = [], files = {}, trace = []\<rparr>"

definition empty_zone_state :: state where
  "empty_zone_state =
     \<lparr>db = [(4, \<lparr>latitude = Some (Finite 50.45), longitude = Some (Finite 30.52),
                  notification_time = Some ''08:00'', timezone = Some []\<rparr>)],
      jobs = [], files = {}, trace = []\<rparr>"

text \<open>User 1 stands on the equator: the stored latitude is 0.0.\<close>

definition equator_state :: state where
  "equator_state =
     \<lparr>db = [(1, \<lparr>latitude = Some (Finite 0), longitude = Some (Finite 30.52),
                  notification_time = None, timezone = Some ''Africa/Kampala''\<rparr>)],
      jobs = [], files = {}, trace = []\<rparr>"

section \<open>Parsing and rendering\<close>

lemma digit_not_special:
  assumes "is_digit c"
  shows "c \<noteq> CHR '':''" "\<not> is_space c" "c \<noteq> CHR ''-''" "c \<noteq> CHR ''+''" "c \<noteq> CHR ''_''"
    "c \<noteq> CHR 0x0A"
  using assms by (auto simp: is_digit_def is_space_def)

lemma newline_space: "is_space (CHR 0x0A)" "CHR 0x0A \<noteq> CHR '':''"
  by (simp_all add: is_space_def)

lemma py_int_digits1: "is_digit a \<Longrightarrow> py_int [a] = Some (int (digit_val a))"
  by (simp add: py_int_def strip_def digit_not_special)

lemma py_int_digits2:
  "is_digit a \<Longrightarrow> is_digit b \<Longrightarrow> py_int [a, b] = Some (int (10 * digit_val a + digit_val b))"
  by (simp add: py_int_def strip_def digit_not_special)

lemma py_int_digits2_nl:
  "is_digit a \<Longrightarrow> is_digit b \<Longrightarrow>
   py_int [a, b, CHR 0x0A] = Some (int (10 * digit_val a + digit_val b))"
  by (simp add: py_int_def strip_def digit_not_special newline_space)

lemma time_regex_shape:
  assumes "time_regex text"
  shows "\<exists>h1 h2 m1 m2. is_digit h2 \<and> is_digit m1 \<and> is_digit m2 \<and>
           (text = [h2, CHR '':'', m1, m2] \<or> text = [h2, CHR '':'', m1, m2, CHR 0x0A] \<or>
            is_digit h1 \<and> (text = [h1, h2, CHR '':'', m1, m2] \<or>
                            text = [h1, h2, CHR '':'', m1, m2, CHR 0x0A]))"
proof (cases "text \<noteq> [] \<and> last text = CHR 0x0A")
  case True
  then obtain t where t: "text = t @ [CHR 0x0A]"
    by (metis append_butlast_last_id)
  with assms True show ?thesis
    by (auto simp: time_regex_def split: list.splits)
next
  case False
  with assms show ?thesis
    by (auto simp: time_regex_def split: list.splits)
qed

lemma time_regex_parses:
  assumes "time_regex text"
  shows "\<exists>h m. parse_time text = Some (h, m) \<and> 0 \<le> h \<and> 0 \<le> m"
  using time_regex_shape [OF assms]
  by (elim exE conjE disjE) (auto simp: parse_time_def digit_not_special newline_space py_int_digits1 py_int_digits2
      py_int_digits2_nl)

lemma digit_char_inj:
  "a < 10 \<Longrightarrow> b < 10 \<Longrightarrow> digit_char a = digit_char b \<Longrightarrow> a = b"
  by (simp add: digit_char_def char_of_eq_iff take_bit_eq_mod)

lemma digit_char_not_minus: "d < 10 \<Longrightarrow> digit_char d \<noteq> CHR ''-''"
proof
  assume d: "d < 10" and "digit_char d = CHR ''-''"
  then have "(of_char (char_of (48 + d)) :: nat) = of_char (CHR ''-'')"
    by (simp add: digit_char_def)
  with d show False by simp
qed

lemma str_nat_nonempty: "str_nat n \<noteq> []" "[] \<noteq> str_nat n"
  by (subst str_nat.simps, simp)+

lemma hd_str_nat_not_minus: "hd (str_nat n) \<noteq> CHR ''-''"
proof (induction n rule: str_nat.induct)
  case (1 n)
  show ?case
  proof (cases "n < 10")
    case True
    then show ?thesis by (subst str_nat.simps) (simp add: digit_char_not_minus)
  next
    case False
    with 1 show ?thesis by (subst str_nat.simps) (simp add: str_nat_nonempty)
  qed
qed

lemma str_nat_inj: "str_nat a = str_nat b \<Longrightarrow> a = b"
proof (induction a arbitrary: b rule: str_nat.induct)
  case (1 n)
  show ?case
  proof (cases "n < 10")
    case True
    show ?thesis
    proof (cases "b < 10")
      case True
      with \<open>n < 10\<close> "1.prems" show ?thesis
        by (simp add: str_nat.simps [of n] str_nat.simps [of b] digit_char_inj)
    next
      case False
      with \<open>n < 10\<close> "1.prems" show ?thesis
        by (simp add: str_nat.simps [of n] str_nat.simps [of b] str_nat_nonempty)
    qed
  next
    case False
    show ?thesis
    proof (cases "b < 10")
      case True
      with False "1.prems" show ?thesis
        by (simp add: str_nat.simps [of n] str_nat.simps [of b] str_nat_nonempty)
    next
      case b: False
      with False "1.prems" have "str_nat (n div 10) = str_nat (b div 10)"
        and "digit_char (n mod 10) = digit_char (b mod 10)"
        by (simp_all add: str_nat.simps [of n] str_nat.simps [of b])
      with "1.IH" [OF False] have "n div 10 = b div 10" and "n mod 10 = b mod 10"
        by (auto intro: digit_char_inj)
      then show ?thesis by (metis div_mult_mod_eq)
    qed
  qed
qed

lemma str_int_inj: "str_int a = str_int b \<Longrightarrow> a = b"
proof -
  assume eq: "str_int a = str_int b"
  have neg: "str_nat n \<noteq> CHR ''-'' # cs" "CHR ''-'' # cs \<noteq> str_nat n" for n cs
    using hd_str_nat_not_minus [of n] by (cases "str_nat n"; auto)+
  from eq show ?thesis
    by (auto simp: str_int_def neg split: if_splits dest!: str_nat_inj)
qed

lemma job_id_inj: "job_id a = job_id b \<longleftrightarrow> a = b"
  by (auto simp: job_id_def dest: str_int_inj)

section \<open>The settings store\<close>

lemma bind_real_Num: "bind_real (map_option Num v) = v"
  by (cases v) (simp_all add: bind_real_def)

lemma get_save_same:
  "get_user_settings (save_user_settings tbl u lat lon t z) u =
     Some \<lparr>latitude =
             (case lat of Some x \<Rightarrow> bind_real (Some x)
              | None \<Rightarrow> dict_get latitude (get_user_settings tbl u)),
           longitude =
             (case lon of Some x \<Rightarrow> bind_real (Some x)
              | None \<Rightarrow> dict_get longitude (get_user_settings tbl u)),
           notification_time =
             (case t of Some x \<Rightarrow> Some x
              | None \<Rightarrow> dict_get notification_time (get_user_settings tbl u)),
           timezone =
             (case z of Some x \<Rightarrow> Some x
              | None \<Rightarrow> dict_get timezone (get_user_settings tbl u))\<rparr>"
  by (simp add: save_user_settings_def get_user_settings_def update_conv' Let_def
      bind_real_Num split: option.splits)

lemma get_save_other:
  "v \<noteq> u \<Longrightarrow> get_user_settings (save_user_settings tbl u lat lon t z) v = get_user_settings tbl v"
  by (simp add: save_user_settings_def get_user_settings_def update_conv' Let_def)

lemma distinct_save:
  "distinct (map fst tbl) \<Longrightarrow> distinct (map fst (save_user_settings tbl u lat lon t z))"
  by (simp add: save_user_settings_def Let_def distinct_update)

section \<open>The job table\<close>


lemma planned_jobs_Nil: "planned_jobs [] = []"
  by (simp add: planned_jobs_def)

lemma planned_jobs_Cons:
  "planned_jobs ((u, row) # rows) =
     (case planned_job u row of None \<Rightarrow> planned_jobs rows
      | Some j \<Rightarrow> (job_id u, j) # planned_jobs rows)"
  by (simp add: planned_jobs_def split: option.splits)

lemma keys_planned_jobs: "fst ` set (planned_jobs rows) \<subseteq> job_id ` fst ` set rows"
  by (induction rows) (force simp: planned_jobs_Nil planned_jobs_Cons split: option.splits)+

lemma planned_job_None_time: "notification_time row = None \<Longrightarrow> planned_job u row = None"
  by (simp add: planned_job_def truthy_str_def)

lemma select_scheduled_Cons:
  "select_scheduled ((u, row) # rows) =
     (if notification_time row \<noteq> None
      then (u, notification_time row, timezone row) # select_scheduled rows
      else select_scheduled rows)"
  by (simp add: select_scheduled_def)



lemma jobs_of_by_id:
  "list_all (\<lambda>(jid, j). jid = job_id (job_user j)) js \<Longrightarrow>
   jobs_of v js = filter (\<lambda>(jid, j). jid = job_id v) js"
  by (induction js) (auto simp: jobs_of_def job_id_inj)

lemma filter_key_fresh: "k \<notin> fst ` set al \<Longrightarrow> filter (\<lambda>(k', v). k' = k) al = []"
  by (induction al) auto

lemma filter_key_distinct:
  "distinct (map fst al) \<Longrightarrow> length (filter (\<lambda>(k', v). k' = k) al) \<le> 1"
proof (induction al)
  case Nil
  then show ?case by simp
next
  case (Cons a al)
  with filter_key_fresh [of k al] show ?case by (cases a) auto
qed

lemma at_most_one_job: "job_table_ok js \<Longrightarrow> length (jobs_of v js) \<le> 1"
  using filter_key_distinct [of js "job_id v"] by (simp add: job_table_ok_def jobs_of_by_id)

lemma filter_key_update:
  "distinct (map fst al) \<Longrightarrow>
   filter (\<lambda>(k', v). k' = k) (AList.update k x al) = [(k, x)]"
proof (induction al)
  case Nil
  then show ?case by simp
next
  case (Cons a al)
  with filter_key_fresh [of k al] show ?case by (cases a) auto
qed

lemma filter_key_update_other:
  "k' \<noteq> k \<Longrightarrow>
   filter (\<lambda>(a, v). a = k') (AList.update k x al) = filter (\<lambda>(a, v). a = k') al"
  by (induction al) auto

lemma job_table_ok_add_job: "job_table_ok js \<Longrightarrow> job_table_ok (add_job js t u)"
proof -
  assume ok: "job_table_ok js"
  have "list_all (\<lambda>(jid, j). jid = job_id (job_user j)) js \<Longrightarrow>
      list_all (\<lambda>(jid, j). jid = job_id (job_user j))
        (AList.update (job_id u) \<lparr>job_trigger = t, job_user = u\<rparr> js)"
    by (induction js) auto
  with ok show ?thesis
    by (simp add: job_table_ok_def add_job_def distinct_update)
qed

lemma jobs_of_add_job:
  "job_table_ok js \<Longrightarrow>
   jobs_of u (add_job js t u) = [(job_id u, \<lparr>job_trigger = t, job_user = u\<rparr>)]"
  using job_table_ok_add_job [of js t u]
  by (simp add: job_table_ok_def jobs_of_by_id) (simp add: add_job_def filter_key_update)

lemma jobs_of_add_job_other:
  "job_table_ok js \<Longrightarrow> v \<noteq> u \<Longrightarrow> jobs_of v (add_job js t u) = jobs_of v js"
  using job_table_ok_add_job [of js t u]
  by (simp add: job_table_ok_def jobs_of_by_id)
    (simp add: add_job_def filter_key_update_other job_id_inj)

lemma length_add_job:
  "length (add_job js t u) =
     (if job_id u \<in> fst ` set js then length js else Suc (length js))"
  unfolding add_job_def by (induction js) auto

lemma has_job_iff:
  "job_table_ok js \<Longrightarrow> jobs_of u js \<noteq> [] \<longleftrightarrow> job_id u \<in> fst ` set js"
  by (force simp: job_table_ok_def jobs_of_by_id filter_empty_conv)

lemma restore_rows_ok:
  "job_table_ok js \<Longrightarrow> restore_rows w rows js = Inr js' \<Longrightarrow> job_table_ok js'"
proof (induction w rows js rule: restore_rows.induct)
  case (1 w js)
  then show ?case by simp
next
  case (2 w user_id time_str zone rows js)
  then show ?case
    by (auto simp: job_table_ok_add_job split: if_splits option.splits sum.splits)
qed

section \<open>What the handlers leave unchanged\<close>

lemma emit_simps [simp]:
  "db (emit e s) = db s" "jobs (emit e s) = jobs s" "files (emit e s) = files s"
  "trace (emit e s) = trace s @ [e]" "now (emit e s) = Suc (now s)"
  by (simp_all add: emit_def now_def)

lemma get_weather_frame:
  "db (fst (get_weather w s la lo)) = db s"
  "jobs (fst (get_weather w s la lo)) = jobs s"
  "files (fst (get_weather w s la lo)) = files s"
  by (simp_all add: get_weather_def Let_def split: option.splits)

lemma get_timezone_frame:
  "db (fst (get_timezone w s la lo)) = db s"
  "jobs (fst (get_timezone w s la lo)) = jobs s"
  "files (fst (get_timezone w s la lo)) = files s"
  by (simp_all add: get_timezone_def Let_def split: tz_answer.splits)

lemma generate_frame:
  "db (fst (generate_weather_description w s d)) = db s"
  "jobs (fst (generate_weather_description w s d)) = jobs s"
  "files (fst (generate_weather_description w s d)) = files s"
  by (simp_all add: generate_weather_description_def Let_def split: option.splits)

lemma send_daily_weather_frame:
  "db (send_daily_weather w s u) = db s" "jobs (send_daily_weather w s u) = jobs s"
proof -
  obtain s1 wd where gw: "get_weather w s (the (dict_get latitude (get_user_settings (db s) u)))
      (the (dict_get longitude (get_user_settings (db s) u))) = (s1, wd)"
    by (cases "get_weather w s (the (dict_get latitude (get_user_settings (db s) u)))
      (the (dict_get longitude (get_user_settings (db s) u)))")
  obtain s2 d where gd: "generate_weather_description w s1 (the wd) = (s2, d)"
    by (cases "generate_weather_description w s1 (the wd)")
  from gw have s1: "db s1 = db s" "jobs s1 = jobs s"
    using get_weather_frame [of w s] by (metis fst_conv)+
  from gd have s2: "db s2 = db s1" "jobs s2 = jobs s1"
    using generate_frame [of w s1] by (metis fst_conv)+
  show "db (send_daily_weather w s u) = db s"
    by (simp add: send_daily_weather_def Let_def gw gd s1 s2 forecast_failed_def
        split: speech_answer.splits)
  show "jobs (send_daily_weather w s u) = jobs s"
    by (simp add: send_daily_weather_def Let_def gw gd s1 s2 forecast_failed_def
        split: speech_answer.splits)
qed

lemma handle_instant_forecast_frame:
  "db (handle_instant_forecast w s u) = db s" "jobs (handle_instant_forecast w s u) = jobs s"
  using get_weather_frame [of w s]
  by (auto simp: handle_instant_forecast_def Let_def send_daily_weather_frame
      split: prod.splits) (metis fst_conv)+

lemma fire_frame: "db (fire w s jid) = db s" "jobs (fire w s jid) = jobs s"
  by (simp_all add: fire_def send_daily_weather_frame split: option.splits)

lemma handle_location_jobs: "jobs (handle_location w s u la lo) = jobs s"
  using get_timezone_frame [of w s la lo]
  by (auto simp: handle_location_def split: prod.splits)

lemma handle_location_db:
  "\<exists>z. db (handle_location w s u la lo) =
     save_user_settings (db s) u (Some la) (Some lo) None z"
  using get_timezone_frame [of w s la lo]
  by (auto simp: handle_location_def split: prod.splits)

lemma handle_time_input_db:
  "db (handle_time_input w s u text) = db s \<or>
   db (handle_time_input w s u text) = save_user_settings (db s) u None None (Some text) None"
  by (simp add: handle_time_input_def Let_def split: option.splits prod.splits sum.splits exn.splits)

lemma handle_time_input_jobs:
  "jobs (handle_time_input w s u text) = jobs s \<or>
   (\<exists>t. jobs (handle_time_input w s u text) = add_job (jobs s) t u)"
  by (simp add: handle_time_input_def Let_def split: option.splits prod.splits sum.splits exn.splits)
    blast

lemma dispatch_db:
  "db (dispatch w s upd) = db s \<or>
   (\<exists>u msg. db (dispatch w s upd) = save_user_settings (db s) u None None (Some msg) None) \<or>
   (\<exists>u la lo z. upd = Location_message u la lo \<and>
      db (dispatch w s upd) = save_user_settings (db s) u (Some la) (Some lo) None z)"
proof (cases upd)
  case (Location_message u la lo)
  then show ?thesis using handle_location_db [of w s u la lo]
    by (auto simp: dispatch_def)
next
  case (Text_message u msg)
  then show ?thesis using handle_time_input_db [of w s u msg]
    by (simp add: dispatch_def) blast
qed (simp_all add: dispatch_def start_def handle_time_setup_def handle_instant_forecast_frame
    fire_frame)

lemma dispatch_jobs:
  "jobs (dispatch w s upd) = jobs s \<or> (\<exists>t u. jobs (dispatch w s upd) = add_job (jobs s) t u)"
proof (cases upd)
  case (Text_message u msg)
  then show ?thesis using handle_time_input_jobs [of w s u msg]
    by (simp add: dispatch_def) blast
qed (simp_all add: dispatch_def start_def handle_time_setup_def handle_instant_forecast_frame
    fire_frame handle_location_jobs)

lemma distinct_dispatch:
  "distinct (map fst (db s)) \<Longrightarrow> distinct (map fst (db (dispatch w s upd)))"
  using dispatch_db [of w s upd] by (auto simp: distinct_save)

lemma never_cleared_refl: "never_cleared p p"
  by (simp add: never_cleared_def)

lemma never_cleared_trans: "never_cleared p q \<Longrightarrow> never_cleared q r \<Longrightarrow> never_cleared p r"
  by (simp add: never_cleared_def)

lemma time_and_zone_kept_refl: "time_and_zone_kept p p"
  by (simp add: time_and_zone_kept_def)

lemma time_and_zone_kept_trans:
  "time_and_zone_kept p q \<Longrightarrow> time_and_zone_kept q r \<Longrightarrow> time_and_zone_kept p r"
  by (simp add: time_and_zone_kept_def)

lemma time_and_zone_kept_save:
  "time_and_zone_kept (get_user_settings tbl v)
     (get_user_settings (save_user_settings tbl u lat lon t z) v)"
  by (cases "v = u")
    (auto simp: time_and_zone_kept_def get_save_same get_save_other dict_get_def
      split: option.splits)

lemma bind_real_not_NaN: "x \<noteq> NaN \<Longrightarrow> bind_real (Some x) \<noteq> None"
  by (cases x) (simp_all add: bind_real_def)

lemma never_cleared_save:
  assumes "lat \<noteq> Some NaN" and "lon \<noteq> Some NaN"
  shows "never_cleared (get_user_settings tbl v)
     (get_user_settings (save_user_settings tbl u lat lon t z) v)"
proof (cases "v = u")
  case True
  from assms have "bind_real (Some x) \<noteq> None" if "lat = Some x \<or> lon = Some x" for x
    using that bind_real_not_NaN [of x] by auto
  with True show ?thesis
    by (auto simp: never_cleared_def get_save_same dict_get_def split: option.splits)
next
  case False
  then show ?thesis by (simp add: get_save_other never_cleared_refl)
qed

lemma time_and_zone_kept_dispatch:
  "time_and_zone_kept (get_user_settings (db s) v)
     (get_user_settings (db (dispatch w s upd)) v)"
  using dispatch_db [of w s upd]
  by (auto simp: time_and_zone_kept_refl time_and_zone_kept_save)

lemma never_cleared_dispatch:
  assumes "no_nan upd"
  shows "never_cleared (get_user_settings (db s) v) (get_user_settings (db (dispatch w s upd)) v)"
  using dispatch_db [of w s upd] assms
  by (auto simp: never_cleared_refl never_cleared_save no_nan_def)

lemma time_and_zone_kept_run:
  "time_and_zone_kept (get_user_settings (db s) v) (get_user_settings (db (run w s upds)) v)"
proof (induction upds arbitrary: s)
  case Nil
  then show ?case by (simp add: run_def time_and_zone_kept_refl)
next
  case (Cons upd upds)
  from time_and_zone_kept_dispatch [of s v w upd] Cons [of "dispatch w s upd"] show ?case
    unfolding run_def by (auto intro: time_and_zone_kept_trans)
qed

lemma never_cleared_run:
  assumes "list_all no_nan upds"
  shows "never_cleared (get_user_settings (db s) v) (get_user_settings (db (run w s upds)) v)"
  using assms
proof (induction upds arbitrary: s)
  case Nil
  then show ?case by (simp add: run_def never_cleared_refl)
next
  case (Cons upd upds)
  then have "never_cleared (get_user_settings (db s) v)
      (get_user_settings (db (dispatch w s upd)) v)"
    and "never_cleared (get_user_settings (db (dispatch w s upd)) v)
      (get_user_settings (db (run w (dispatch w s upd) upds)) v)"
    by (simp_all add: never_cleared_dispatch)
  then show ?case
    unfolding run_def by (auto intro: never_cleared_trans)
qed

lemma job_table_ok_dispatch: "job_table_ok (jobs s) \<Longrightarrow> job_table_ok (jobs (dispatch w s upd))"
  using dispatch_jobs [of w s upd] by (auto simp: job_table_ok_add_job)

lemma job_table_ok_run: "job_table_ok (jobs s) \<Longrightarrow> job_table_ok (jobs (run w s upds))"
proof (induction upds arbitrary: s)
  case Nil
  then show ?case by (simp add: run_def)
next
  case (Cons upd upds)
  from Cons.IH [of "dispatch w s upd"] Cons.prems show ?case
    by (simp add: run_def job_table_ok_dispatch)
qed

section \<open>Evaluating the examples\<close>

lemma job_id_1: "job_id 1 = ''user_1''"
  by code_simp

lemmas eval_defs = job_id_1
  example_world_def weather_down_world_def send_fails_world_def empty_state_def
  located_state_def scheduled_state_def moved_state_def inconsistent_state_def equator_state_def
  unknown_zone_state_def empty_zone_state_def
  get_user_settings_def dict_get_def truthy_float_def truthy_str_def emit_def now_def
  bind_real_def
  get_weather_def get_timezone_def generate_weather_description_def forecast_failed_def mp3_def
  send_daily_weather_def handle_instant_forecast_def handle_location_def handle_time_input_def
  fire_def CronTrigger_def add_job_def
  parse_time_def py_int_def strip_def is_space_def is_digit_def digit_val_def
  save_user_settings_def Let_def restore_jobs_def setup_scheduler_def process_start_def
  select_scheduled_def

lemma time_0800_sets_job:
  "handle_time_input example_world located_state 1 ''08:00'' =
     scheduled_state\<lparr>trace := [Reply_text 1 (Notification_set ''08:00'')]\<rparr>"
  by (simp add: eval_defs)

lemma new_location_keeps_job:
  "handle_location example_world scheduled_state 1 (Num (Finite 40.71)) (Num (Finite (- 74))) =
     moved_state\<lparr>trace := [Timezone_request (Num (Finite 40.71)) (Num (Finite (- 74))),
                            Reply_text 1 (Location_saved (Some ''America/New_York''))]\<rparr>"
  by (simp add: eval_defs)

section \<open>Claims about the time handler\<close>

text \<open>
  C5. A notification time sent by a user whose stored timezone is NULL (or who has no
  row) is refused: the handler only replies (that the location must be sent first, or,
  for a text that does not parse, that the format is wrong), adds no job and writes
  nothing to the table. For a text that passes the filter of the handler the reply is
  the one about the location.
\<close>

theorem time_refused_without_timezone:
  assumes "dict_get timezone (get_user_settings (db s) u) = None"
  shows "jobs (handle_time_input w s u text) = jobs s \<and>
         db (handle_time_input w s u text) = db s \<and>
         (handle_time_input w s u text = emit (Reply_text u Location_first) s \<or>
          handle_time_input w s u text = emit (Reply_text u Bad_format) s) \<and>
         (time_regex text \<longrightarrow>
            handle_time_input w s u text = emit (Reply_text u Location_first) s)"
proof -
  from assms have nt: "\<not> truthy_str (dict_get timezone (get_user_settings (db s) u))"
    by (simp add: truthy_str_def)
  have reg: "handle_time_input w s u text = emit (Reply_text u Location_first) s"
    if "time_regex text"
    using time_regex_parses [OF that] nt by (auto simp: handle_time_input_def Let_def)
  from nt have "handle_time_input w s u text = emit (Reply_text u Location_first) s \<or>
      handle_time_input w s u text = emit (Reply_text u Bad_format) s"
    by (auto simp: handle_time_input_def Let_def split: option.splits)
  with reg show ?thesis by auto
qed

theorem time_refused_without_timezone_witness:
  "dict_get timezone (get_user_settings (db empty_state) 1) = None \<and>
   time_regex ''08:00'' \<and>
   handle_time_input example_world empty_state 1 ''08:00'' =
     emit (Reply_text 1 Location_first) empty_state \<and>
   jobs (handle_time_input example_world empty_state 1 ''08:00'') = [] \<and>
   db (handle_time_input example_world empty_state 1 ''08:00'') = []"
  using time_refused_without_timezone [of empty_state 1 example_world "''08:00''"]
  by (simp add: time_regex_def is_digit_def) (simp add: eval_defs)

text \<open>
  C4. A time whose hour or minute is out of range is rejected: the handler answers with
  one of its three refusals (location first when no timezone is stored, the general
  error when the stored timezone is unknown, wrong format otherwise), and the job
  table, the users table and the files are unchanged. The text 25:99 passes the filter
  of the handler and is such a time.
\<close>

theorem time_out_of_range_rejected:
  assumes "parse_time text = Some (h, m)"
    and "\<not> (0 \<le> h \<and> h \<le> 23 \<and> 0 \<le> m \<and> m \<le> 59)"
  shows "handle_time_input w s u text =
           (if \<not> truthy_str (dict_get timezone (get_user_settings (db s) u))
            then emit (Reply_text u Location_first) s
            else if \<not> tz_known w (the (dict_get timezone (get_user_settings (db s) u)))
            then emit (Reply_text u Handler_error) (emit (Log_error Handler_failed) s)
            else emit (Reply_text u Bad_format) s) \<and>
         jobs (handle_time_input w s u text) = jobs s \<and>
         db (handle_time_input w s u text) = db s \<and>
         files (handle_time_input w s u text) = files s"
  using assms by (auto simp: handle_time_input_def Let_def CronTrigger_def)

theorem time_out_of_range_rejected_witness:
  "time_regex ''25:99'' \<and> parse_time ''25:99'' = Some (25, 99) \<and>
   handle_time_input example_world located_state 1 ''25:99'' =
     emit (Reply_text 1 Bad_format) located_state \<and>
   jobs (handle_time_input example_world located_state 1 ''25:99'') = [] \<and>
   db (handle_time_input example_world located_state 1 ''25:99'') = db located_state"
proof -
  have p: "parse_time ''25:99'' = Some (25, 99)"
    by (simp add: eval_defs)
  have r: "time_regex ''25:99''"
    by (simp add: time_regex_def is_digit_def)
  from time_out_of_range_rejected [OF p, of example_world located_state 1] p r
  show ?thesis
    by (simp add: example_world_def located_state_def get_user_settings_def dict_get_def
        truthy_str_def)
qed

section \<open>Claims about the delivery pipeline\<close>

text \<open>
  C9. When the weather request of a firing fails, the firing makes that one request,
  writes one log line and nothing else: no message is sent, and the job table is
  unchanged, so the job stays scheduled.
\<close>

theorem weather_failure_keeps_job:
  assumes "map_of (jobs s) jid = Some j"
    and "dict_get latitude (get_user_settings (db s) (job_user j)) = Some lat"
    and "dict_get longitude (get_user_settings (db s) (job_user j)) = Some lon"
    and "truthy_float (Some lat)" and "truthy_float (Some lon)"
    and "weatherapi w (now s) lat lon = None"
  shows "fire w s jid =
           s\<lparr>trace := trace s @ [Weather_request lat lon, Log_error Weather_failed]\<rparr> \<and>
         jobs (fire w s jid) = jobs s \<and>
         map_of (jobs (fire w s jid)) jid = Some j"
  using assms
  by (simp add: fire_def send_daily_weather_def Let_def get_weather_def emit_def)

theorem weather_failure_keeps_job_witness:
  "fire weather_down_world scheduled_state ''user_1'' =
     scheduled_state\<lparr>trace := [Weather_request (Finite 50.45) (Finite 30.52), Log_error Weather_failed]\<rparr> \<and>
   jobs (fire weather_down_world scheduled_state ''user_1'') = jobs scheduled_state"
  using weather_failure_keeps_job [of scheduled_state "''user_1''"
      "\<lparr>job_trigger = \<lparr>hour = 8, minute = 0, tz = ''Europe/Kyiv''\<rparr>, job_user = 1\<rparr>"
      "Finite 50.45" "Finite 30.52" weather_down_world]
  by (simp add: scheduled_state_def weather_down_world_def example_world_def
      get_user_settings_def dict_get_def now_def truthy_float_def)





lemma send_daily_weather_first_event:
  assumes "truthy_float (dict_get latitude (get_user_settings (db s) u))"
    and "truthy_float (dict_get longitude (get_user_settings (db s) u))"
  shows "trace (send_daily_weather w s u) ! length (trace s) =
           Weather_request (the (dict_get latitude (get_user_settings (db s) u)))
             (the (dict_get longitude (get_user_settings (db s) u)))"
  using assms
  by (simp add: send_daily_weather_def Let_def get_weather_def generate_weather_description_def
      forecast_failed_def emit_def nth_append split: option.splits speech_answer.splits)

text \<open>
  C6. The pipeline tests the truth value of the stored coordinates, so a stored
  coordinate 0.0 counts as missing: for a user on the equator, with both coordinates in
  the profile, the pipeline does nothing, also right after the location handler has
  stored the location. (\<open>send_daily_weather_noop_iff\<close> is the exact condition,
  \<open>send_daily_weather_first_event\<close> the request that follows otherwise.)
\<close>

theorem zero_latitude_is_skipped:
  "dict_get latitude (get_user_settings (db equator_state) 1) = Some (Finite 0) \<and>
   dict_get longitude (get_user_settings (db equator_state) 1) = Some (Finite 30.52) \<and>
   send_daily_weather w equator_state 1 = equator_state \<and>
   dict_get latitude
     (get_user_settings
        (db (handle_location w empty_state 1 (Num (Finite 0)) (Num (Finite 30.52)))) 1) =
     Some (Finite 0) \<and>
   send_daily_weather w
       (handle_location w empty_state 1 (Num (Finite 0)) (Num (Finite 30.52))) 1 =
     handle_location w empty_state 1 (Num (Finite 0)) (Num (Finite 30.52))"
  by (simp add: eval_defs split: tz_answer.splits)

theorem zero_latitude_is_skipped_witness:
  "trace (send_daily_weather example_world equator_state 1) = [] \<and>
   files (send_daily_weather example_world equator_state 1) = {} \<and>
   send_daily_weather example_world
       (handle_location example_world empty_state 1 (Num (Finite 0)) (Num (Finite 30.52))) 1 =
     handle_location example_world empty_state 1 (Num (Finite 0)) (Num (Finite 30.52))"
  using zero_latitude_is_skipped [of example_world]
  by (simp add: equator_state_def)


text \<open>
  C7. The file is removed by the last statement of the body, so only when both
  deliveries succeeded (\<open>delivered_file_removed\<close>). When the delivery of the text
  fails after the speech was saved, the file is left behind.
\<close>

theorem artifact_left_after_failed_send:
  "send_daily_weather send_fails_world located_state 1 =
     located_state
       \<lparr>files := {mp3},
        trace := [Weather_request (Finite 50.45) (Finite 30.52), Narration_request [(''temp_c'', ''5'')],
                  Speech_request ''sunny'', Send_message 1 ''sunny'' False,
                  Log_error Forecast_failed]\<rparr>"
  by (simp add: eval_defs)

theorem artifact_left_after_failed_send_witness:
  "mp3 \<in> files (send_daily_weather send_fails_world located_state 1) \<and>
   Remove_file mp3 \<notin> set (trace (send_daily_weather send_fails_world located_state 1))"
  using artifact_left_after_failed_send by simp




section \<open>Claims about the settings store\<close>

text \<open>
  C3, as it stands, fails for a NaN: the argument is not None, so it replaces the
  stored latitude, and it is written as NULL; the value read back is neither the
  argument nor the value stored before.
\<close>

theorem save_nan_counterexample:
  "dict_get latitude (get_user_settings (db located_state) 1) = Some (Finite 50.45) \<and>
   Some NaN \<noteq> (None :: pyfloat option) \<and>
   dict_get latitude
     (get_user_settings
        (save_user_settings (db located_state) 1 (Some NaN) None None None) 1) = None"
  by (simp add: eval_defs)

text \<open>
  C3, amended. The upsert is field-wise. After \<^verbatim>\<open>save_user_settings\<close> for a user, each
  column of the row that \<^verbatim>\<open>get_user_settings\<close> reads back holds the argument when the
  argument is not None, a coordinate NaN being stored as NULL, and the value stored
  before otherwise (None for a user without a row). In particular, saving only a
  latitude and a longitude leaves the stored notification time and timezone as they
  were.
\<close>

theorem save_user_settings_fieldwise:
  "dict_get latitude (get_user_settings (save_user_settings tbl u lat lon t z) u) =
     (case lat of Some x \<Rightarrow> bind_real (Some x)
      | None \<Rightarrow> dict_get latitude (get_user_settings tbl u)) \<and>
   dict_get longitude (get_user_settings (save_user_settings tbl u lat lon t z) u) =
     (case lon of Some x \<Rightarrow> bind_real (Some x)
      | None \<Rightarrow> dict_get longitude (get_user_settings tbl u)) \<and>
   dict_get notification_time (get_user_settings (save_user_settings tbl u lat lon t z) u) =
     (case t of Some x \<Rightarrow> Some x
      | None \<Rightarrow> dict_get notification_time (get_user_settings tbl u)) \<and>
   dict_get timezone (get_user_settings (save_user_settings tbl u lat lon t z) u) =
     (case z of Some x \<Rightarrow> Some x | None \<Rightarrow> dict_get timezone (get_user_settings tbl u)) \<and>
   dict_get latitude
       (get_user_settings (save_user_settings tbl u (Some (Num x)) lon t z) u) = Some x \<and>
   dict_get longitude
       (get_user_settings (save_user_settings tbl u lat (Some (Num y)) t z) u) = Some y \<and>
   dict_get notification_time
       (get_user_settings (save_user_settings tbl u (Some la) (Some lo) None None) u) =
     dict_get notification_time (get_user_settings tbl u) \<and>
   dict_get timezone
       (get_user_settings (save_user_settings tbl u (Some la) (Some lo) None None) u) =
     dict_get timezone (get_user_settings tbl u)"
  by (simp add: get_save_same dict_get_def bind_real_def)

theorem save_user_settings_fieldwise_witness:
  "dict_get notification_time
     (get_user_settings
        (save_user_settings (db scheduled_state) 1
           (Some (Num (Finite 48))) (Some (Num (Finite 2))) None None) 1) = Some ''08:00'' \<and>
   dict_get latitude
     (get_user_settings
        (save_user_settings (db scheduled_state) 1
           (Some (Num (Finite 48))) (Some (Num (Finite 2))) None None) 1) = Some (Finite 48)"
proof -
  have d: "dict_get notification_time (get_user_settings (db scheduled_state) 1) =
      Some ''08:00''"
    by (simp add: scheduled_state_def get_user_settings_def dict_get_def)
  from save_user_settings_fieldwise [where tbl = "db scheduled_state" and u = 1
      and la = "Num (Finite 48)" and lo = "Num (Finite 2)" and x = "Finite 48"
      and y = "Finite 2" and lat = "Some (Num (Finite 48))"
      and lon = "Some (Num (Finite 2))" and t = None and z = None] d
  show ?thesis by (simp add: bind_real_def)
qed

text \<open>
  C10, as it stands, fails for a NaN: a call with a NaN latitude, and so a location
  message that carries one, clears the stored latitude.
\<close>

theorem nan_clears_latitude_counterexample:
  "dict_get latitude (get_user_settings (db scheduled_state) 1) = Some (Finite 50.45) \<and>
   dict_get latitude
     (get_user_settings
        (save_user_settings (db scheduled_state) 1 (Some NaN) None None None) 1) = None \<and>
   dict_get latitude
     (get_user_settings
        (db (run example_world scheduled_state
               [Location_message 1 NaN (Num (Finite 30.52))])) 1) = None"
  by (simp add: eval_defs run_def dispatch_def)

text \<open>
  C10, amended. The upsert never clears the notification time or the timezone: for
  every call of \<^verbatim>\<open>save_user_settings\<close> and every user, each of the two that holds a
  value before the call holds one after it, and so from any state of the process to
  any state it reaches. The same holds of all four columns for every call whose
  coordinate arguments are not NaN, and along every run whose location messages carry
  no NaN.
\<close>

theorem settings_never_cleared:
  "time_and_zone_kept (get_user_settings tbl v)
     (get_user_settings (save_user_settings tbl u lat lon t z) v) \<and>
   (lat \<noteq> Some NaN \<and> lon \<noteq> Some NaN \<longrightarrow>
      never_cleared (get_user_settings tbl v)
        (get_user_settings (save_user_settings tbl u lat lon t z) v)) \<and>
   time_and_zone_kept (get_user_settings (db s) v)
     (get_user_settings (db (run w s upds)) v) \<and>
   (list_all no_nan upds \<longrightarrow>
      never_cleared (get_user_settings (db s) v) (get_user_settings (db (run w s upds)) v))"
  by (simp add: never_cleared_save never_cleared_run time_and_zone_kept_save
      time_and_zone_kept_run)

theorem settings_never_cleared_witness:
  "list_all no_nan [Location_message 1 (Num (Finite 40.71)) (Num (Finite (- 74)))] \<and>
   dict_get notification_time (get_user_settings (db scheduled_state) 1) \<noteq> None \<and>
   dict_get latitude (get_user_settings (db scheduled_state) 1) \<noteq> None \<and>
   never_cleared (get_user_settings (db scheduled_state) 1)
     (get_user_settings
        (save_user_settings (db scheduled_state) 1
           (Some (Num (Finite 40.71))) (Some (Num (Finite (- 74)))) None None) 1) \<and>
   never_cleared (get_user_settings (db scheduled_state) 1)
     (get_user_settings
        (db (run example_world scheduled_state
               [Location_message 1 (Num (Finite 40.71)) (Num (Finite (- 74)))])) 1) \<and>
   dict_get notification_time
     (get_user_settings
        (db (run example_world scheduled_state
               [Location_message 1 (Num (Finite 40.71)) (Num (Finite (- 74)))])) 1) \<noteq> None"
proof -
  have n: "list_all no_nan [Location_message 1 (Num (Finite 40.71)) (Num (Finite (- 74)))]"
    by (simp add: no_nan_def)
  have d: "dict_get notification_time (get_user_settings (db scheduled_state) 1) \<noteq> None"
    "dict_get latitude (get_user_settings (db scheduled_state) 1) \<noteq> None"
    by (simp_all add: scheduled_state_def get_user_settings_def dict_get_def)
  from settings_never_cleared [where tbl = "db scheduled_state" and v = 1 and u = 1
      and lat = "Some (Num (Finite 40.71))" and lon = "Some (Num (Finite (- 74)))"
      and t = None and z = None and s = scheduled_state and w = example_world
      and upds = "[Location_message 1 (Num (Finite 40.71)) (Num (Finite (- 74)))]"] n d
  show ?thesis by (simp add: time_and_zone_kept_def)
qed

section \<open>The request for a forecast\<close>



lemma new_events_appended: "new_events s (x\<lparr>trace := trace s @ evs\<rparr>) = evs"
  by (simp add: new_events_def)




section \<open>Claims about the scheduler\<close>

lemma map_of_planned_jobs:
  assumes "distinct (map fst rows)"
  shows "map_of (planned_jobs rows) (job_id u) = planned rows u"
  using assms
proof (induction rows)
  case Nil
  then show ?case by (simp add: planned_jobs_Nil planned_def get_user_settings_def)
next
  case (Cons r rows)
  obtain v row where r: "r = (v, row)" by (cases r)
  from Cons.prems have d: "distinct (map fst rows)" and v: "v \<notin> fst ` set rows"
    by (auto simp: r)
  have "job_id v \<notin> job_id ` fst ` set rows"
    using v by (force simp: job_id_inj)
  with keys_planned_jobs [of rows] have "job_id v \<notin> fst ` set (planned_jobs rows)"
    by blast
  then have fresh: "map_of (planned_jobs rows) (job_id v) = None"
    by (simp add: map_of_eq_None_iff)
  show ?case
  proof (cases "u = v")
    case True
    with fresh show ?thesis
      by (simp add: r planned_jobs_Cons planned_def get_user_settings_def split: option.splits)
  next
    case False
    with Cons.IH [OF d] show ?thesis
      by (simp add: r planned_jobs_Cons job_id_inj planned_def get_user_settings_def
          split: option.splits)
  qed
qed



text \<open>What a completed reconciliation leaves under each id, from any job table.\<close>

lemma restore_rows_map:
  assumes "restore_rows w (select_scheduled rows) js = Inr js'"
    and "distinct (map fst rows)"
  shows "map_of js' = map_of js ++ map_of (planned_jobs rows)"
  using assms
proof (induction rows arbitrary: js)
  case Nil
  then show ?case by (simp add: select_scheduled_def planned_jobs_Nil)
next
  case (Cons r rows)
  obtain u row where r: "r = (u, row)" by (cases r)
  from Cons.prems have d: "distinct (map fst rows)" and u: "u \<notin> fst ` set rows"
    by (auto simp: r)
  have "job_id u \<notin> job_id ` fst ` set rows"
    using u by (force simp: job_id_inj)
  with keys_planned_jobs [of rows] have "job_id u \<notin> fst ` set (planned_jobs rows)"
    by blast
  then have fresh: "map_of (planned_jobs rows) (job_id u) = None"
    by (simp add: map_of_eq_None_iff)
  show ?case
  proof (cases "truthy_str (notification_time row) \<and> truthy_str (timezone row)")
    case False
    then have p: "planned_job u row = None"
      by (auto simp: planned_job_def)
    from False Cons.prems have "restore_rows w (select_scheduled rows) js = Inr js'"
      by (auto simp: r select_scheduled_Cons split: if_splits)
    with Cons.IH [OF _ d] p show ?thesis
      by (simp add: r planned_jobs_Cons)
  next
    case True
    then have nn: "notification_time row \<noteq> None"
      by (auto simp: truthy_str_def split: option.splits)
    from True nn Cons.prems obtain h m t where
      p: "parse_time (the (notification_time row)) = Some (h, m)"
      and c: "CronTrigger (tz_known w) h m (the (timezone row)) = Inr t"
      and rest: "restore_rows w (select_scheduled rows) (add_job js t u) = Inr js'"
      by (auto simp: r select_scheduled_Cons split: option.splits sum.splits)
    from c have t: "t = \<lparr>hour = h, minute = m, tz = the (timezone row)\<rparr>"
      by (auto simp: CronTrigger_def split: if_splits)
    from True p t have pj: "planned_job u row = Some \<lparr>job_trigger = t, job_user = u\<rparr>"
      by (simp add: planned_job_def)
    have aj: "map_of (add_job js t u) a =
        (if a = job_id u then Some \<lparr>job_trigger = t, job_user = u\<rparr> else map_of js a)" for a
      by (simp add: add_job_def update_conv')
    from Cons.IH [OF rest d]
    have "map_of js' = map_of (add_job js t u) ++ map_of (planned_jobs rows)" .
    also have "\<dots> = map_of js ++ map_of (planned_jobs (r # rows))"
      using fresh
      by (auto simp: r planned_jobs_Cons pj map_add_def fun_eq_iff aj split: option.splits)
    finally show ?thesis .
  qed
qed

lemma filter_key_map_of:
  "distinct (map fst al) \<Longrightarrow>
   filter (\<lambda>(k', v). k' = k) al = (case map_of al k of None \<Rightarrow> [] | Some v \<Rightarrow> [(k, v)])"
proof (induction al)
  case Nil
  then show ?case by simp
next
  case (Cons a al)
  then show ?case
    using filter_key_fresh [of k al] by (cases a) (auto split: option.splits)
qed

lemma jobs_of_map:
  "job_table_ok js \<Longrightarrow>
   jobs_of u js = (case map_of js (job_id u) of None \<Rightarrow> [] | Some j \<Rightarrow> [(job_id u, j)])"
  by (simp add: job_table_ok_def jobs_of_by_id filter_key_map_of)

lemma setup_scheduler_replaces:
  assumes ok: "job_table_ok (jobs s)" and d: "distinct (map fst (db s))"
    and r: "setup_scheduler w s = Inr s'"
  shows "jobs_of u (jobs s') =
     (case planned (db s) u of None \<Rightarrow> jobs_of u (jobs s) | Some j \<Rightarrow> [(job_id u, j)])"
proof -
  from r obtain js' where rr: "restore_rows w (select_scheduled (db s)) (jobs s) = Inr js'"
    and s': "jobs s' = js'"
    by (auto simp: setup_scheduler_def restore_jobs_def split: sum.splits)
  from restore_rows_map [OF rr d]
  have "map_of js' (job_id u) =
      (case planned (db s) u of None \<Rightarrow> map_of (jobs s) (job_id u) | Some j \<Rightarrow> Some j)"
    by (simp add: map_add_def map_of_planned_jobs [OF d])
  moreover have "job_table_ok js'"
    using restore_rows_ok [OF ok rr] .
  ultimately show ?thesis
    using ok by (simp add: s' jobs_of_map split: option.splits)
qed

lemma handle_time_input_accepted:
  assumes "dict_get timezone (get_user_settings (db s) u) = Some z" and "z \<noteq> []"
    and "tz_known w z" and "parse_time text = Some (h, m)"
    and "0 \<le> h \<and> h \<le> 23 \<and> 0 \<le> m \<and> m \<le> 59"
  shows "handle_time_input w s u text =
     emit (Reply_text u (Notification_set text))
       (s\<lparr>jobs := add_job (jobs s) \<lparr>hour = h, minute = m, tz = z\<rparr> u,
          db := save_user_settings (db s) u None None (Some text) None\<rparr>)"
  using assms by (simp add: handle_time_input_def Let_def truthy_str_def CronTrigger_def)

lemma setup_scheduler_ok:
  "job_table_ok (jobs s) \<Longrightarrow> setup_scheduler w s = Inr s' \<Longrightarrow> job_table_ok (jobs s')"
  by (auto simp: setup_scheduler_def restore_jobs_def split: sum.splits dest: restore_rows_ok)

text \<open>
  C2. At most one job per user. From a job table in which ids are unique and every job
  stands under the id of its user (the empty table of a new scheduler is one), every
  state the process reaches, and every state the reconciliation ends in, has at most
  one job bound to any user. A reconciliation replaces: whatever job a user had, a
  user whose row asks for a job has afterwards exactly that job, with the stored time
  and timezone, and the jobs of any other user are as they were. When a user with a
  stored, known timezone sends two valid times one after the other, the job of the user
  after each is exactly the job of the time sent last, and the second does not change
  the number of jobs.
\<close>

theorem one_job_per_user:
  assumes "job_table_ok (jobs s)"
  shows "length (jobs_of v (jobs (run w s upds))) \<le> 1 \<and>
    (\<forall>s'. setup_scheduler w s = Inr s' \<longrightarrow> length (jobs_of v (jobs s')) \<le> 1) \<and>
    (\<forall>s'. distinct (map fst (db s)) \<and> setup_scheduler w s = Inr s' \<longrightarrow>
       jobs_of v (jobs s') =
         (case planned (db s) v of None \<Rightarrow> jobs_of v (jobs s)
          | Some j \<Rightarrow> [(job_id v, j)])) \<and>
    (dict_get timezone (get_user_settings (db s) u) = Some z \<and> z \<noteq> [] \<and> tz_known w z \<and>
     parse_time text1 = Some (h1, m1) \<and> 0 \<le> h1 \<and> h1 \<le> 23 \<and> 0 \<le> m1 \<and> m1 \<le> 59 \<and>
     parse_time text2 = Some (h2, m2) \<and> 0 \<le> h2 \<and> h2 \<le> 23 \<and> 0 \<le> m2 \<and> m2 \<le> 59 \<longrightarrow>
       jobs_of u (jobs (handle_time_input w s u text1)) =
         [(job_id u, \<lparr>job_trigger = \<lparr>hour = h1, minute = m1, tz = z\<rparr>, job_user = u\<rparr>)] \<and>
       jobs_of u (jobs (handle_time_input w (handle_time_input w s u text1) u text2)) =
         [(job_id u, \<lparr>job_trigger = \<lparr>hour = h2, minute = m2, tz = z\<rparr>, job_user = u\<rparr>)] \<and>
       length (jobs (handle_time_input w (handle_time_input w s u text1) u text2)) =
         length (jobs (handle_time_input w s u text1)))"
proof -
  have run: "length (jobs_of v (jobs (run w s upds))) \<le> 1"
    by (rule at_most_one_job [OF job_table_ok_run [OF assms]])
  have restore: "length (jobs_of v (jobs s')) \<le> 1" if "setup_scheduler w s = Inr s'" for s'
    by (rule at_most_one_job [OF setup_scheduler_ok [OF assms that]])
  have twice: "jobs_of u (jobs (handle_time_input w s u text1)) =
         [(job_id u, \<lparr>job_trigger = \<lparr>hour = h1, minute = m1, tz = z\<rparr>, job_user = u\<rparr>)] \<and>
       jobs_of u (jobs (handle_time_input w (handle_time_input w s u text1) u text2)) =
         [(job_id u, \<lparr>job_trigger = \<lparr>hour = h2, minute = m2, tz = z\<rparr>, job_user = u\<rparr>)] \<and>
       length (jobs (handle_time_input w (handle_time_input w s u text1) u text2)) =
         length (jobs (handle_time_input w s u text1))"
    if z: "dict_get timezone (get_user_settings (db s) u) = Some z" "z \<noteq> []" "tz_known w z"
      and p1: "parse_time text1 = Some (h1, m1)" "0 \<le> h1 \<and> h1 \<le> 23 \<and> 0 \<le> m1 \<and> m1 \<le> 59"
      and p2: "parse_time text2 = Some (h2, m2)" "0 \<le> h2 \<and> h2 \<le> 23 \<and> 0 \<le> m2 \<and> m2 \<le> 59"
  proof -
    let ?s1 = "handle_time_input w s u text1"
    let ?t1 = "\<lparr>hour = h1, minute = m1, tz = z\<rparr>"
    have s1: "?s1 = emit (Reply_text u (Notification_set text1))
       (s\<lparr>jobs := add_job (jobs s) ?t1 u,
          db := save_user_settings (db s) u None None (Some text1) None\<rparr>)"
      by (rule handle_time_input_accepted [OF z p1])
    then have j1: "jobs ?s1 = add_job (jobs s) ?t1 u"
      and d1: "db ?s1 = save_user_settings (db s) u None None (Some text1) None"
      by simp_all
    from d1 z have z1: "dict_get timezone (get_user_settings (db ?s1) u) = Some z"
      by (simp add: get_save_same dict_get_def)
    have ok1: "job_table_ok (jobs ?s1)"
      using assms j1 by (simp add: job_table_ok_add_job)
    have "handle_time_input w ?s1 u text2 = emit (Reply_text u (Notification_set text2))
       (?s1\<lparr>jobs := add_job (jobs ?s1) \<lparr>hour = h2, minute = m2, tz = z\<rparr> u,
          db := save_user_settings (db ?s1) u None None (Some text2) None\<rparr>)"
      by (rule handle_time_input_accepted [OF z1 z(2,3) p2])
    then have j2: "jobs (handle_time_input w ?s1 u text2) =
        add_job (jobs ?s1) \<lparr>hour = h2, minute = m2, tz = z\<rparr> u"
      by simp
    have has: "job_id u \<in> fst ` set (jobs ?s1)"
      using has_job_iff [OF ok1, of u] jobs_of_add_job [OF assms, of u ?t1] j1 by simp
    show ?thesis
      using j1 j2 has assms ok1 by (simp add: jobs_of_add_job length_add_job)
  qed
  have replaced: "jobs_of v (jobs s') =
         (case planned (db s) v of None \<Rightarrow> jobs_of v (jobs s)
          | Some j \<Rightarrow> [(job_id v, j)])"
    if "distinct (map fst (db s))" "setup_scheduler w s = Inr s'" for s'
    using assms that by (rule setup_scheduler_replaces)
  from run restore replaced twice show ?thesis by blast
qed

theorem one_job_per_user_witness:
  "job_table_ok (jobs scheduled_state) \<and>
   jobs_of 1 (jobs (handle_time_input example_world
       (handle_time_input example_world scheduled_state 1 ''07:30'') 1 ''21:15'')) =
     [(job_id 1, \<lparr>job_trigger = \<lparr>hour = 21, minute = 15, tz = ''Europe/Kyiv''\<rparr>, job_user = 1\<rparr>)] \<and>
   length (jobs (handle_time_input example_world
       (handle_time_input example_world scheduled_state 1 ''07:30'') 1 ''21:15'')) = 1 \<and>
   length (jobs_of 1 (jobs (run example_world scheduled_state
       [Text_message 1 ''07:30'', Firing ''user_1'', Text_message 1 ''21:15'']))) \<le> 1 \<and>
   job_table_ok (jobs moved_state) \<and> distinct (map fst (db moved_state)) \<and>
   jobs_of 1 (jobs moved_state) =
     [(job_id 1, \<lparr>job_trigger = \<lparr>hour = 8, minute = 0, tz = ''Europe/Kyiv''\<rparr>, job_user = 1\<rparr>)] \<and>
   setup_scheduler example_world moved_state =
     Inr (moved_state
            \<lparr>jobs := [(''user_1'',
                       \<lparr>job_trigger = \<lparr>hour = 8, minute = 0, tz = ''America/New_York''\<rparr>,
                          job_user = 1\<rparr>)]\<rparr>) \<and>
   jobs_of 1
     (jobs (moved_state
              \<lparr>jobs := [(''user_1'',
                         \<lparr>job_trigger = \<lparr>hour = 8, minute = 0, tz = ''America/New_York''\<rparr>,
                            job_user = 1\<rparr>)]\<rparr>)) =
     [(job_id 1,
       \<lparr>job_trigger = \<lparr>hour = 8, minute = 0, tz = ''America/New_York''\<rparr>, job_user = 1\<rparr>)]"
proof -
  have ok: "job_table_ok (jobs scheduled_state)"
    by (simp add: scheduled_state_def job_table_ok_def job_id_1)
  have p: "parse_time ''07:30'' = Some (7, 30)" "parse_time ''21:15'' = Some (21, 15)"
    by (simp_all add: eval_defs)
  have z: "dict_get timezone (get_user_settings (db scheduled_state) 1) = Some ''Europe/Kyiv''"
    "tz_known example_world ''Europe/Kyiv''"
    by (simp_all add: eval_defs)
  have l: "length (jobs (handle_time_input example_world scheduled_state 1 ''07:30'')) = 1"
    by (simp add: eval_defs)
  have okm: "job_table_ok (jobs moved_state)" "distinct (map fst (db moved_state))"
    by (simp_all add: moved_state_def job_table_ok_def job_id_1)
  have before: "jobs_of 1 (jobs moved_state) =
      [(job_id 1, \<lparr>job_trigger = \<lparr>hour = 8, minute = 0, tz = ''Europe/Kyiv''\<rparr>, job_user = 1\<rparr>)]"
    by (simp add: moved_state_def jobs_of_def job_id_1)
  have restart: "setup_scheduler example_world moved_state =
     Inr (moved_state
            \<lparr>jobs := [(''user_1'',
                       \<lparr>job_trigger = \<lparr>hour = 8, minute = 0, tz = ''America/New_York''\<rparr>,
                          job_user = 1\<rparr>)]\<rparr>)"
    by (simp add: eval_defs)
  have pl: "planned (db moved_state) 1 =
      Some \<lparr>job_trigger = \<lparr>hour = 8, minute = 0, tz = ''America/New_York''\<rparr>, job_user = 1\<rparr>"
    by (simp add: planned_def planned_job_def eval_defs)
  from one_job_per_user [OF ok, of 1 example_world
      "[Text_message 1 ''07:30'', Firing ''user_1'', Text_message 1 ''21:15'']" 1
      "''Europe/Kyiv''" "''07:30''" 7 30 "''21:15''" 21 15] p z l
  have first: "jobs_of 1 (jobs (handle_time_input example_world
       (handle_time_input example_world scheduled_state 1 ''07:30'') 1 ''21:15'')) =
     [(job_id 1, \<lparr>job_trigger = \<lparr>hour = 21, minute = 15, tz = ''Europe/Kyiv''\<rparr>, job_user = 1\<rparr>)] \<and>
   length (jobs (handle_time_input example_world
       (handle_time_input example_world scheduled_state 1 ''07:30'') 1 ''21:15'')) = 1 \<and>
   length (jobs_of 1 (jobs (run example_world scheduled_state
       [Text_message 1 ''07:30'', Firing ''user_1'', Text_message 1 ''21:15'']))) \<le> 1"
    by simp
  from one_job_per_user [OF okm(1), of 1 example_world "[]" 1] okm(2) restart pl
  have second: "jobs_of 1
     (jobs (moved_state
              \<lparr>jobs := [(''user_1'',
                         \<lparr>job_trigger = \<lparr>hour = 8, minute = 0, tz = ''America/New_York''\<rparr>,
                            job_user = 1\<rparr>)]\<rparr>)) =
     [(job_id 1,
       \<lparr>job_trigger = \<lparr>hour = 8, minute = 0, tz = ''America/New_York''\<rparr>, job_user = 1\<rparr>)]"
    by simp
  from ok okm before restart first second show ?thesis by simp
qed

section \<open>Claims about the reconciliation\<close>




















end
